theory Spec2Isabelle
  imports Complex_Main
begin

section \<open>The Gemini alert script (app.py)\<close>

text \<open>
  The script polls the Gemini ticker and candle endpoints for one symbol and writes a
  log line per analysis: price deviation (z-score), price change against the open price,
  and volume change against the 24 hour sum. Everything it does is visible through the
  logger only, so a run is modelled by the list of logger calls it makes together with
  its outcome: a returned value or the exception that leaves the function.

  Conventions of the model:
  \<^item> Python floats are HOL reals: rounding, overflow, infinities and NaN are not modelled.
  \<^item> The trace keeps the logger calls made through \<open>log.info\<close>, \<open>log.error\<close> and
    \<open>log.exception\<close>, in order, with the format string and its arguments. Calls of
    \<open>log.debug\<close> are left out: they carry no decision and are printed only under
    \<open>--debug\<close>.
  \<^item> Runs of white space inside the multi-line message literals are written as one blank.
\<close>

subsection \<open>Exceptions, logger calls, results\<close>

datatype py_error =
    ValueError
  | TypeError
  | IndexError
  | StatisticsError
  | ZeroDivisionError
  | UnboundLocalError
  | ConnectionError
  | HTTPError
  | JSONDecodeError

text \<open>A piece of an f-string: literal text, or an interpolated float.\<close>

datatype piece = Lit string | Val real

datatype arg =
    AStr string
  | ANum real
  | AExc py_error
  | AMsg "piece list"

text \<open>The logger method called; \<open>log.error\<close> and \<open>log.exception\<close> both write at level ERROR.\<close>

datatype log_method = INFO | ERROR | EXCEPTION

datatype log_record = Log log_method string "arg list"

type_synonym 'a io = "log_record list \<times> (py_error + 'a)"

definition ret :: "'a \<Rightarrow> 'a io" where
  "ret x = ([], Inr x)"

definition raise :: "py_error \<Rightarrow> 'a io" where
  "raise e = ([], Inl e)"

text \<open>Statement sequencing: an exception of the first part skips the rest.\<close>

definition and_then :: "'a io \<Rightarrow> ('a \<Rightarrow> 'b io) \<Rightarrow> 'b io" where
  "and_then m f =
     (case snd m of
        Inl e \<Rightarrow> (fst m, Inl e)
      | Inr x \<Rightarrow> (fst m @ fst (f x), snd (f x)))"

text \<open>\<open>try: m except Exception as ex: h ex\<close>.\<close>

definition try_except :: "'a io \<Rightarrow> (py_error \<Rightarrow> 'a io) \<Rightarrow> 'a io" where
  "try_except m h =
     (case snd m of
        Inl e \<Rightarrow> (fst m @ fst (h e), snd (h e))
      | Inr x \<Rightarrow> (fst m, Inr x))"

definition log_info :: "string \<Rightarrow> arg list \<Rightarrow> unit io" where
  "log_info fmt args = ([Log INFO fmt args], Inr ())"

definition log_error :: "string \<Rightarrow> arg list \<Rightarrow> unit io" where
  "log_error fmt args = ([Log ERROR fmt args], Inr ())"

definition log_exception :: "string \<Rightarrow> arg list \<Rightarrow> unit io" where
  "log_exception fmt args = ([Log EXCEPTION fmt args], Inr ())"

text \<open>A library call that returns or raises, without logging.\<close>

definition lift :: "py_error + 'a \<Rightarrow> 'a io" where
  "lift r = ([], r)"

subsection \<open>The statistics module of the standard library\<close>

text \<open>
  \<open>stats.mean\<close>, \<open>stats.stdev\<close> and \<open>stats.fsum\<close> are not code of the script. They are
  modelled by what the library computes in exact arithmetic: the mean is the total over the
  count, the sample variance is \<open>(n * sxx - sx * sx) / (n * (n - 1))\<close> from the exact sums
  \<open>sx\<close> of the data and \<open>sxx\<close> of their squares, the standard deviation is its square
  root. Both raise StatisticsError on too few data points.
\<close>

definition stats_mean :: "real list \<Rightarrow> py_error + real" where
  "stats_mean data =
     (if data = [] then Inl StatisticsError
      else Inr (sum_list data / real (length data)))"

definition stats_variance :: "real list \<Rightarrow> real" where
  "stats_variance data =
     (let n = real (length data);
          sx = sum_list data;
          sxx = sum_list (map (\<lambda>x. x * x) data)
      in (n * sxx - sx * sx) / (n * (n - 1)))"

definition stats_stdev :: "real list \<Rightarrow> py_error + real" where
  "stats_stdev data =
     (if length data < 2 then Inl StatisticsError
      else Inr (sqrt (stats_variance data)))"

definition stats_fsum :: "real list \<Rightarrow> real" where
  "stats_fsum xs = sum_list xs"

text \<open>Float division raises on a zero divisor.\<close>

definition py_div :: "real \<Rightarrow> real \<Rightarrow> py_error + real" where
  "py_div a b = (if b = 0 then Inl ZeroDivisionError else Inr (a / b))"

subsection \<open>calculate_percentage_change, calculate_zscore\<close>

text \<open>The guard \<open>if final and initial\<close> is on truthiness: a float is falsy exactly when it is 0.\<close>

definition calculate_percentage_change :: "real \<Rightarrow> real \<Rightarrow> real io" where
  "calculate_percentage_change final initial =
     and_then (log_info ''Calculate percentage change between final and inital value.'' []) (\<lambda>_.
       if final \<noteq> 0 \<and> initial \<noteq> 0 then ret (((final - initial) / initial) * 100)
       else and_then (log_exception ''Missing values for final and intial.'' []) (\<lambda>_.
         raise ValueError))"

text \<open>
  The body of the \<open>try\<close> assigns \<open>sample_stdev\<close>, \<open>sample_mean\<close> and \<open>zscore\<close> in this
  order; the handler logs and falls through to the \<open>return\<close>. The value of the protected
  block is the triple when all three names were bound, and \<open>None\<close> when an exception left
  \<open>zscore\<close> (the first name the \<open>return\<close> reads) unbound: reading it raises
  UnboundLocalError.
\<close>

definition calculate_zscore :: "real list \<Rightarrow> real \<Rightarrow> (real \<times> real \<times> real) io" where
  "calculate_zscore past_values current_price =
     and_then
       (try_except
          (and_then (log_info ''Calculate the Zscore to get # of std deviations current price is from mean.'' []) (\<lambda>_.
           and_then (lift (stats_stdev past_values)) (\<lambda>sample_stdev.
           and_then (lift (stats_mean past_values)) (\<lambda>sample_mean.
           and_then (lift (py_div (current_price - sample_mean) sample_stdev)) (\<lambda>zscore.
           ret (Some (zscore, sample_mean, sample_stdev)))))))
          (\<lambda>ex. and_then (log_exception ''Failed to calculate standard deviation: %s'' [AExc ex]) (\<lambda>_.
             ret None)))
       (\<lambda>bound. case bound of
            None \<Rightarrow> raise UnboundLocalError
          | Some r \<Rightarrow> ret r)"

subsection \<open>The provider's answers\<close>

text \<open>
  A decoded JSON value. A ticker answer is a JSON object with the keys \<open>close\<close>,
  \<open>open\<close> and \<open>changes\<close>: a dictionary from key to value. A candle answer is an array
  of rows of numbers, the volume last.
\<close>

datatype json = JNull | JBool bool | JNum real | JStr string | JArr "json list"

type_synonym dict = "string \<rightharpoonup> json"

type_synonym candles = "real list list"

text \<open>\<open>d.get(k)\<close> is \<open>None\<close> for a missing key.\<close>

definition dict_get :: "dict \<Rightarrow> string \<Rightarrow> json" where
  "dict_get d k = (case d k of None \<Rightarrow> JNull | Some v \<Rightarrow> v)"

fun truthy :: "json \<Rightarrow> bool" where
  "truthy JNull = False"
| "truthy (JBool b) = b"
| "truthy (JNum r) = (r \<noteq> 0)"
| "truthy (JStr s) = (s \<noteq> [])"
| "truthy (JArr xs) = (xs \<noteq> [])"

text \<open>
  The builtin \<open>float\<close>. How it reads a string belongs to the Python runtime and is the
  parameter \<open>pf\<close>: \<open>Some r\<close> when the text denotes \<open>r\<close>, \<open>None\<close> when \<open>float\<close> raises
  ValueError.
\<close>

fun py_float :: "(string \<Rightarrow> real option) \<Rightarrow> json \<Rightarrow> py_error + real" where
  "py_float pf (JNum r) = Inr r"
| "py_float pf (JBool b) = Inr (if b then 1 else 0)"
| "py_float pf (JStr s) = (case pf s of None \<Rightarrow> Inl ValueError | Some r \<Rightarrow> Inr r)"
| "py_float pf JNull = Inl TypeError"
| "py_float pf (JArr xs) = Inl TypeError"

text \<open>The elements a \<open>for\<close> visits: those of an array, the characters of a string.\<close>

fun py_iter :: "json \<Rightarrow> py_error + json list" where
  "py_iter (JArr xs) = Inr xs"
| "py_iter (JStr s) = Inr (map (\<lambda>c. JStr [c]) s)"
| "py_iter JNull = Inl TypeError"
| "py_iter (JBool b) = Inl TypeError"
| "py_iter (JNum r) = Inl TypeError"

text \<open>\<open>[float(x) for x in xs]\<close>: the first element that fails ends the comprehension.\<close>

fun floats :: "(string \<Rightarrow> real option) \<Rightarrow> json list \<Rightarrow> py_error + real list" where
  "floats pf [] = Inr []"
| "floats pf (x # xs) =
     (case py_float pf x of
        Inl e \<Rightarrow> Inl e
      | Inr r \<Rightarrow> (case floats pf xs of Inl e \<Rightarrow> Inl e | Inr rs \<Rightarrow> Inr (r # rs)))"

text \<open>
  What \<open>requests.get\<close> met at a URL: no response at all (the call raised), or a response
  with its status (\<open>True\<close> when \<open>raise_for_status\<close> passes) and what \<open>response.json()\<close>
  gives: the decoded body or an exception. A repeated request meets the same answer.
\<close>

datatype 'a reply = NoResponse | Response bool "py_error + 'a"

record provider =
  ticker_reply :: "string \<Rightarrow> dict reply"
  candles_reply :: "string \<Rightarrow> candles reply"

text \<open>
  \<open>send_request\<close> logs a request exception and goes on to \<open>return response\<close>, which
  raises UnboundLocalError when \<open>requests.get\<close> never bound the name. The response object
  is represented by the outcome of its \<open>json()\<close> method.
\<close>

definition send_request :: "(string \<Rightarrow> 'a reply) \<Rightarrow> string \<Rightarrow> (py_error + 'a) io" where
  "send_request net url =
     and_then (log_info ''Sending request to endpoint: %s.'' [AStr url]) (\<lambda>_.
     and_then
       (try_except
          (case net url of
             NoResponse \<Rightarrow> raise ConnectionError
           | Response ok body \<Rightarrow> if ok then ret () else raise HTTPError)
          (\<lambda>request_exception. log_exception ''Requests exception: %s'' [AExc request_exception]))
       (\<lambda>_. case net url of
           NoResponse \<Rightarrow> raise UnboundLocalError
         | Response ok body \<Rightarrow> ret body))"

definition GEMINI_API_BASE_URL :: string where
  "GEMINI_API_BASE_URL = ''https://api.gemini.com''"

definition API_VERSION :: string where
  "API_VERSION = ''v2''"

definition get_candles_url :: "string \<Rightarrow> string \<Rightarrow> string" where
  "get_candles_url symbol time_range =
     GEMINI_API_BASE_URL @ ''/'' @ API_VERSION @ ''/candles/'' @ symbol @ ''/'' @ time_range"

definition get_tickerv2_url :: "string \<Rightarrow> string io" where
  "get_tickerv2_url symbol =
     and_then (log_info ''Get Gemini API tickerv2 endpoint.'' []) (\<lambda>_.
       ret (GEMINI_API_BASE_URL @ ''/'' @ API_VERSION @ ''/ticker/'' @ symbol))"

subsection \<open>Extraction\<close>

definition get_current_price :: "(string \<Rightarrow> real option) \<Rightarrow> dict \<Rightarrow> real io" where
  "get_current_price pf response =
     and_then (log_info ''Get current price from API json response.'' []) (\<lambda>_.
       if truthy (dict_get response ''close'') then lift (py_float pf (dict_get response ''close''))
       else and_then (log_exception ''Current price cannot be None.'' []) (\<lambda>_.
         raise ValueError))"

definition get_open_price :: "(string \<Rightarrow> real option) \<Rightarrow> dict \<Rightarrow> real io" where
  "get_open_price pf response =
     and_then (log_info ''Get open price from API json response.'' []) (\<lambda>_.
       if truthy (dict_get response ''open'') then lift (py_float pf (dict_get response ''open''))
       else and_then (log_exception ''Open price cannot be None.'' []) (\<lambda>_.
         raise ValueError))"

definition get_current_volume_1m_interval :: "candles \<Rightarrow> real io" where
  "get_current_volume_1m_interval response =
     (case response of
        past_1m # _ \<Rightarrow>
          if past_1m \<noteq> [] then ret (past_1m ! (length past_1m - 1))
          else and_then (log_exception ''response cannot be empty'' []) (\<lambda>_. raise ValueError)
      | [] \<Rightarrow> and_then (log_exception ''response cannot be empty'' []) (\<lambda>_. raise ValueError))"

text \<open>
  The loop \<open>for hour in past_24hours: results.append(hour[len(hour) - 1])\<close>. On an empty
  row the index is \<open>-1\<close>, which raises IndexError.
\<close>

fun append_volumes :: "candles \<Rightarrow> real list \<Rightarrow> py_error + real list" where
  "append_volumes [] results = Inr results"
| "append_volumes (hour # rest) results =
     (if hour = [] then Inl IndexError
      else append_volumes rest (results @ [hour ! (length hour - 1)]))"

definition get_total_volume_past_24_hours :: "candles \<Rightarrow> real io" where
  "get_total_volume_past_24_hours response =
     (if response \<noteq> [] \<and> take 24 response \<noteq> [] then
        and_then (lift (append_volumes (take 24 response) [])) (\<lambda>results.
          ret (stats_fsum results))
      else and_then (log_exception ''response cannot be empty'' []) (\<lambda>_. raise ValueError))"

definition get_hourly_past_24_hours :: "(string \<Rightarrow> real option) \<Rightarrow> dict \<Rightarrow> real list io" where
  "get_hourly_past_24_hours pf response =
     and_then (lift (py_iter (dict_get response ''changes''))) (\<lambda>prices_str.
       lift (floats pf prices_str))"

subsection \<open>send_alert, send_info\<close>

text \<open>An f-string is truthy when its text is not empty; a float never renders as empty text.\<close>

fun rendered_nonempty :: "piece list \<Rightarrow> bool" where
  "rendered_nonempty [] = False"
| "rendered_nonempty (Lit s # ps) = (s \<noteq> [] \<or> rendered_nonempty ps)"
| "rendered_nonempty (Val r # ps) = True"

definition send_alert :: "string \<Rightarrow> piece list \<Rightarrow> unit io" where
  "send_alert alert_type message =
     and_then (log_info ''Sending alert.'' []) (\<lambda>_.
       if alert_type \<noteq> [] \<and> rendered_nonempty message then
         log_error ''ALERT TRIGGERED: %s, Message: %s'' [AStr alert_type, AMsg message]
       else and_then (log_exception ''Invalid parameters alert_type, messsage'' []) (\<lambda>_.
         raise ValueError))"

definition send_info :: "string \<Rightarrow> piece list \<Rightarrow> unit io" where
  "send_info alert_type message =
     and_then (log_info ''Sending info.'' []) (\<lambda>_.
       if alert_type \<noteq> [] \<and> rendered_nonempty message then
         log_info ''OK: %s, Message: %s'' [AStr alert_type, AMsg message]
       else and_then (log_exception ''Invalid parameters alert_type, messsage'' []) (\<lambda>_.
         raise ValueError))"

subsection \<open>The three analyses and main\<close>

definition get_price_deviation ::
  "provider \<Rightarrow> (string \<Rightarrow> real option) \<Rightarrow> string \<Rightarrow> real \<Rightarrow> unit io" where
  "get_price_deviation net pf symbol stdev =
     and_then (get_tickerv2_url symbol) (\<lambda>url.
     try_except
       (and_then (log_info ''Get price deviation for %s.'' [AStr symbol]) (\<lambda>_.
        and_then (send_request (ticker_reply net) url) (\<lambda>response.
        and_then (lift response) (\<lambda>response_json.
        and_then (get_current_price pf response_json) (\<lambda>current_price.
        and_then (get_hourly_past_24_hours pf response_json) (\<lambda>past_prices.
        and_then (calculate_zscore past_prices current_price) (\<lambda>(zscore, sample_mean, sample_stdev).
          if zscore > stdev then
            log_error ''Current price: %s is %s standard deviations above the mean: %s''
              [ANum current_price, ANum zscore, ANum sample_mean]
          else if zscore < stdev * - 1 then
            log_error ''Current price: %s is %s standard deviations below the mean: %s''
              [ANum current_price, ANum zscore, ANum sample_mean]
          else
            log_info ''Current price (%s) is within 1 standard deivation (%s) from the sample mean (%s).''
              [ANum current_price, ANum sample_stdev, ANum sample_mean])))))))
       (\<lambda>ex. log_exception ''Failed to get price deviation for: %s, message: %s''
          [AStr symbol, AExc ex]))"

definition get_price_change ::
  "provider \<Rightarrow> (string \<Rightarrow> real option) \<Rightarrow> string \<Rightarrow> real \<Rightarrow> unit io" where
  "get_price_change net pf symbol threshold =
     try_except
       (and_then (log_info ''Get price change between open and current for %s.'' [AStr symbol]) (\<lambda>_.
        and_then (get_tickerv2_url symbol) (\<lambda>url.
        and_then (send_request (ticker_reply net) url) (\<lambda>response.
        and_then (lift response) (\<lambda>response_json.
        and_then (get_current_price pf response_json) (\<lambda>current_price.
        and_then (get_open_price pf response_json) (\<lambda>open_price.
        and_then (calculate_percentage_change current_price open_price) (\<lambda>percent_change.
          if abs percent_change > threshold then
            send_alert ''pricechange''
              [Lit ''Percentage change '', Val percent_change,
               Lit '' between current price '', Val current_price,
               Lit '' and open price '', Val open_price,
               Lit '' is greater or equal to threshold of '', Val threshold, Lit ''.'']
          else
            send_info ''pricechange''
              [Lit ''Percentage change '', Val percent_change,
               Lit '' between current price '', Val current_price,
               Lit '' and open price '', Val open_price,
               Lit '' is less than threshold of '', Val threshold, Lit ''.'']))))))))
       (\<lambda>ex. log_exception ''Failed to get price change for: %s, message: %s''
          [AStr symbol, AExc ex])"

definition get_volume_deviation ::
  "provider \<Rightarrow> string \<Rightarrow> real \<Rightarrow> unit io" where
  "get_volume_deviation net symbol threshold =
     try_except
       (and_then (send_request (candles_reply net) (get_candles_url symbol ''1hr'')) (\<lambda>response.
        and_then (lift response) (\<lambda>response_json.
        and_then (get_total_volume_past_24_hours response_json) (\<lambda>total_24hr_volume.
        and_then (send_request (candles_reply net) (get_candles_url symbol ''1m'')) (\<lambda>response.
        and_then (lift response) (\<lambda>response_json.
        and_then (get_current_volume_1m_interval response_json) (\<lambda>current_volume.
        and_then (calculate_percentage_change current_volume total_24hr_volume) (\<lambda>percent_change.
          if percent_change > threshold then
            send_alert ''voldev''
              [Lit ''Percentage change '', Val percent_change,
               Lit '' between current volume '', Val current_volume,
               Lit '' and past 24hour total volume '', Val total_24hr_volume,
               Lit '' threshold of '', Val threshold, Lit ''.'']
          else
            send_info ''voldev''
              [Lit ''Percentage change '', Val percent_change,
               Lit '' between current volume '', Val current_volume,
               Lit '' and past 24hour total volume '', Val total_24hr_volume,
               Lit '' threshold of '', Val threshold, Lit ''.'']))))))))
       (\<lambda>ex. log_exception ''Failed to get volume deviation'' [])"

text \<open>
  \<open>main\<close> after the command line is parsed. \<open>currency\<close> is not used, and \<open>debug\<close> only
  selects the level \<open>setup_logging\<close> prints from.
\<close>

definition main ::
  "provider \<Rightarrow> (string \<Rightarrow> real option) \<Rightarrow> string option \<Rightarrow> string \<Rightarrow> real \<Rightarrow> string \<Rightarrow> bool \<Rightarrow> unit io" where
  "main net pf currency alert_type deviation0 symbol debug =
     (let deviation = deviation0 * 100 in
      if alert_type = ''pricedev'' then get_price_deviation net pf symbol 1.0
      else if alert_type = ''pricechange'' then get_price_change net pf symbol deviation
      else if alert_type = ''voldev'' then get_volume_deviation net symbol deviation
      else if alert_type = ''all'' then
        and_then (get_price_deviation net pf symbol 1.0) (\<lambda>_.
        and_then (get_price_change net pf symbol deviation) (\<lambda>_.
          get_volume_deviation net symbol deviation))
      else log_exception ''Invalid alert type value, must be pricedev, pricechange, voldev, or all.'' [])"

subsection \<open>The specification's statistics\<close>

text \<open>
  The sample mean and the Bessel-corrected sample standard deviation as the specification
  words them: the squared deviations from the mean, summed and divided by \<open>n - 1\<close>.
  \<open>calculate_zscore\<close> is compared with them below.
\<close>

definition sample_mean :: "real list \<Rightarrow> real" where
  "sample_mean xs = sum_list xs / real (length xs)"

definition bessel_stdev :: "real list \<Rightarrow> real" where
  "bessel_stdev xs =
     sqrt (sum_list (map (\<lambda>x. (x - sample_mean xs)\<^sup>2) xs) / (real (length xs) - 1))"

subsection \<open>Fixtures for concrete runs\<close>

text \<open>
  A reading of plain decimal numerals (an optional sign, digits, an optional fraction), to
  stand for \<open>float\<close> on the strings of the concrete runs. It covers a part of what
  \<open>float\<close> accepts and answers \<open>None\<close> elsewhere; the general theorems hold for every
  \<open>pf\<close>.
\<close>

definition digit_of :: "char \<Rightarrow> nat option" where
  "digit_of = map_of
     [(CHR ''0'', 0), (CHR ''1'', 1), (CHR ''2'', 2), (CHR ''3'', 3), (CHR ''4'', 4),
      (CHR ''5'', 5), (CHR ''6'', 6), (CHR ''7'', 7), (CHR ''8'', 8), (CHR ''9'', 9)]"

fun digits_value :: "nat \<Rightarrow> string \<Rightarrow> nat option" where
  "digits_value acc [] = Some acc"
| "digits_value acc (c # cs) =
     (case digit_of c of None \<Rightarrow> None | Some d \<Rightarrow> digits_value (10 * acc + d) cs)"

definition unsigned_decimal :: "string \<Rightarrow> real option" where
  "unsigned_decimal s =
     (let whole = takeWhile (\<lambda>c. c \<noteq> CHR ''.'') s;
          frac = drop 1 (dropWhile (\<lambda>c. c \<noteq> CHR ''.'') s)
      in if whole = [] \<and> frac = [] then None
         else (case digits_value 0 whole of
                 None \<Rightarrow> None
               | Some a \<Rightarrow>
                   (case digits_value 0 frac of
                      None \<Rightarrow> None
                    | Some b \<Rightarrow> Some (real a + real b / 10 ^ length frac))))"

definition decimal :: "string \<Rightarrow> real option" where
  "decimal s =
     (case s of
        [] \<Rightarrow> None
      | c # cs \<Rightarrow>
          if c = CHR ''-'' then map_option uminus (unsigned_decimal cs)
          else if c = CHR ''+'' then unsigned_decimal cs
          else unsigned_decimal s)"

text \<open>
  A provider that answers every ticker request with \<open>ticker\<close>, the one hour candle
  request of \<open>symbol\<close> with \<open>hourly\<close> and every other candle request with \<open>minutes\<close>.
\<close>

definition answering :: "dict \<Rightarrow> candles \<Rightarrow> candles \<Rightarrow> string \<Rightarrow> provider" where
  "answering ticker hourly minutes symbol =
     \<lparr>ticker_reply = (\<lambda>url. Response True (Inr ticker)),
      candles_reply = (\<lambda>url. if url = get_candles_url symbol ''1hr'' then Response True (Inr hourly)
                               else Response True (Inr minutes))\<rparr>"

subsection \<open>Reading a trace\<close>

fun record_method :: "log_record \<Rightarrow> log_method" where
  "record_method (Log m fmt args) = m"

text \<open>The records only \<open>send_alert\<close> and \<open>send_info\<close> write on success.\<close>

fun sink_record :: "log_record \<Rightarrow> bool" where
  "sink_record (Log m fmt args) =
     (fmt = ''ALERT TRIGGERED: %s, Message: %s'' \<or> fmt = ''OK: %s, Message: %s'')"

text \<open>A run that writes no record of \<open>send_alert\<close> or \<open>send_info\<close>.\<close>

definition quiet :: "'a io \<Rightarrow> bool" where
  "quiet m = (\<not> list_ex sink_record (fst m))"

section \<open>Properties\<close>

subsection \<open>Evaluation rules\<close>

lemma and_then_Inr: "and_then (l, Inr x) f = (l @ fst (f x), snd (f x))"
  by (simp add: and_then_def)

lemma and_then_Inl: "and_then (l, Inl e) f = (l, Inl e)"
  by (simp add: and_then_def)

lemma try_except_Inr: "try_except (l, Inr x) h = (l, Inr x)"
  by (simp add: try_except_def)

lemma try_except_Inl: "try_except (l, Inl e) h = (l @ fst (h e), snd (h e))"
  by (simp add: try_except_def)

lemmas io_simps =
  ret_def raise_def lift_def log_info_def log_error_def log_exception_def
  and_then_Inr and_then_Inl try_except_Inr try_except_Inl

lemma io_pair: "snd m = r \<Longrightarrow> m = (fst m, r)"
  by (cases m) simp

lemmas run_simps =
  io_simps get_price_change_def get_price_deviation_def get_volume_deviation_def main_def
  get_tickerv2_url_def get_candles_url_def GEMINI_API_BASE_URL_def API_VERSION_def send_request_def
  get_current_price_def get_open_price_def get_hourly_past_24_hours_def
  get_current_volume_1m_interval_def get_total_volume_past_24_hours_def
  calculate_percentage_change_def calculate_zscore_def stats_stdev_def stats_mean_def
  stats_variance_def stats_fsum_def py_div_def dict_get_def send_alert_def send_info_def
  decimal_def unsigned_decimal_def digit_of_def answering_def

subsection \<open>Percentage change\<close>

text \<open>
  C4. For nonzero \<open>final\<close> and \<open>initial\<close>, \<open>calculate_percentage_change\<close> returns
  \<open>((final - initial) / initial) * 100\<close>; it raises exactly when one of them is 0, and then
  it raises ValueError. \<open>(110, 100)\<close> gives 10 and \<open>(90, 100)\<close> gives -10.
\<close>

theorem percentage_change_formula_and_guard:
  "(final \<noteq> 0 \<and> initial \<noteq> 0 \<longrightarrow>
      snd (calculate_percentage_change final initial) = Inr (((final - initial) / initial) * 100))
   \<and> ((\<exists>e. snd (calculate_percentage_change final initial) = Inl e) \<longleftrightarrow> final = 0 \<or> initial = 0)
   \<and> (final = 0 \<or> initial = 0 \<longrightarrow> snd (calculate_percentage_change final initial) = Inl ValueError)
   \<and> snd (calculate_percentage_change 110 100) = Inr 10
   \<and> snd (calculate_percentage_change 90 100) = Inr (- 10)"
  by (simp add: calculate_percentage_change_def io_simps)

theorem percentage_change_formula_and_guard_witness:
  "(110::real) \<noteq> 0 \<and> (100::real) \<noteq> 0
   \<and> snd (calculate_percentage_change 110 100) = Inr 10
   \<and> snd (calculate_percentage_change 110 0) = Inl ValueError
   \<and> snd (calculate_percentage_change 0 100) = Inl ValueError"
  using percentage_change_formula_and_guard [of 110 100]
    percentage_change_formula_and_guard [of 110 0]
    percentage_change_formula_and_guard [of 0 100]
  by simp

subsection \<open>The z-score\<close>

lemma sum_sq_dev:
  "sum_list (map (\<lambda>x. (x - m)\<^sup>2) xs) =
     sum_list (map (\<lambda>x. x * x) xs) - 2 * m * sum_list xs + real (length xs) * m\<^sup>2"
  by (induction xs) (simp_all add: power2_eq_square algebra_simps)

lemma stats_variance_bessel:
  assumes "xs \<noteq> []"
  shows "stats_variance xs =
           sum_list (map (\<lambda>x. (x - sample_mean xs)\<^sup>2) xs) / (real (length xs) - 1)"
proof -
  have n: "real (length xs) \<noteq> 0" using assms by simp
  show ?thesis
    unfolding stats_variance_def Let_def sum_sq_dev sample_mean_def
    using n by (simp add: field_simps power2_eq_square)
qed

lemma sqrt_stats_variance:
  "2 \<le> length xs \<Longrightarrow> sqrt (stats_variance xs) = bessel_stdev xs"
proof -
  assume "2 \<le> length xs"
  then have "xs \<noteq> []" by auto
  then show ?thesis
    by (simp add: stats_variance_bessel bessel_stdev_def)
qed

lemma calculate_zscore_short:
  "length xs < 2 \<Longrightarrow> calculate_zscore xs c =
     ([Log INFO ''Calculate the Zscore to get # of std deviations current price is from mean.'' [],
       Log EXCEPTION ''Failed to calculate standard deviation: %s'' [AExc StatisticsError]],
      Inl UnboundLocalError)"
  by (simp add: calculate_zscore_def stats_stdev_def io_simps)

lemma calculate_zscore_zero:
  "2 \<le> length xs \<Longrightarrow> bessel_stdev xs = 0 \<Longrightarrow> calculate_zscore xs c =
     ([Log INFO ''Calculate the Zscore to get # of std deviations current price is from mean.'' [],
       Log EXCEPTION ''Failed to calculate standard deviation: %s'' [AExc ZeroDivisionError]],
      Inl UnboundLocalError)"
  using sqrt_stats_variance [of xs]
  by (auto simp add: calculate_zscore_def stats_stdev_def stats_mean_def py_div_def io_simps)

lemma calculate_zscore_ok:
  "2 \<le> length xs \<Longrightarrow> bessel_stdev xs \<noteq> 0 \<Longrightarrow> calculate_zscore xs c =
     ([Log INFO ''Calculate the Zscore to get # of std deviations current price is from mean.'' []],
      Inr ((c - sample_mean xs) / bessel_stdev xs, sample_mean xs, bessel_stdev xs))"
  using sqrt_stats_variance [of xs]
  by (auto simp add: calculate_zscore_def stats_stdev_def stats_mean_def py_div_def io_simps
        sample_mean_def)

lemma sum_list_const: "\<forall>x\<in>set xs. x = a \<Longrightarrow> sum_list xs = real (length xs) * a"
  by (induction xs) (simp_all add: algebra_simps)

lemma sum_list_sq_const:
  "\<forall>x\<in>set xs. x = a \<Longrightarrow> sum_list (map (\<lambda>x. x * x) xs) = real (length xs) * (a * a)"
  by (induction xs) (simp_all add: algebra_simps)

lemma stats_variance_const: "\<forall>x\<in>set xs. x = a \<Longrightarrow> stats_variance xs = 0"
  by (simp add: stats_variance_def Let_def sum_list_const sum_list_sq_const)

lemma bessel_stdev_const:
  assumes "2 \<le> length xs" and "\<forall>x\<in>set xs. x = a"
  shows "bessel_stdev xs = 0"
  using sqrt_stats_variance [OF assms(1)] stats_variance_const [OF assms(2)] by simp

lemma bessel_12345: "bessel_stdev [1, 2, 3, 4, 5] = sqrt (5 / 2)"
  by (simp add: bessel_stdev_def sample_mean_def power2_eq_square)

lemma mean_12345: "sample_mean [1, 2, 3, 4, 5] = 3"
  by (simp add: sample_mean_def)

text \<open>
  C5. For at least two past values with a nonzero sample standard deviation,
  \<open>calculate_zscore\<close> returns the triple \<open>(z, m, s)\<close> of the z-score
  \<open>(current - m) / s\<close>, the sample mean \<open>m\<close> and the Bessel-corrected standard
  deviation \<open>s\<close>; on \<open>[1, 2, 3, 4, 5]\<close> and 3 the z-score is 0.
\<close>

theorem zscore_sample_statistics:
  "(2 \<le> length past_values \<and> bessel_stdev past_values \<noteq> 0 \<longrightarrow>
      snd (calculate_zscore past_values current_value) =
        Inr ((current_value - sample_mean past_values) / bessel_stdev past_values,
             sample_mean past_values, bessel_stdev past_values))
   \<and> snd (calculate_zscore [1, 2, 3, 4, 5] 3) = Inr (0, 3, sqrt (5 / 2))"
proof (intro conjI impI)
  assume "2 \<le> length past_values \<and> bessel_stdev past_values \<noteq> 0"
  then show "snd (calculate_zscore past_values current_value) =
        Inr ((current_value - sample_mean past_values) / bessel_stdev past_values,
             sample_mean past_values, bessel_stdev past_values)"
    by (simp add: calculate_zscore_ok)
next
  have "bessel_stdev [1, 2, 3, 4, 5] \<noteq> 0"
    by (simp add: bessel_12345)
  then show "snd (calculate_zscore [1, 2, 3, 4, 5] 3) = Inr (0, 3, sqrt (5 / 2))"
    by (simp add: calculate_zscore_ok bessel_12345 mean_12345)
qed

theorem zscore_sample_statistics_witness:
  "2 \<le> length [1, 2, 3, 4, 5 :: real] \<and> bessel_stdev [1, 2, 3, 4, 5] \<noteq> 0
   \<and> snd (calculate_zscore [1, 2, 3, 4, 5] 3) = Inr (0, 3, sqrt (5 / 2))"
  using zscore_sample_statistics [of "[1, 2, 3, 4, 5]" 3] by (simp add: bessel_12345 mean_12345)

text \<open>
  C10. \<open>calculate_zscore\<close> never returns a partial result: with fewer than two past
  values, and with a sample standard deviation of 0, the inner exception is caught and
  logged and the \<open>return\<close> raises (UnboundLocalError) instead of returning; every triple
  \<open>(z, m, s)\<close> it returns has \<open>s \<noteq> 0\<close> and \<open>z = (current - m) / s\<close>.
\<close>

theorem zscore_never_partial:
  "(length past_values < 2 \<longrightarrow>
      calculate_zscore past_values current_value =
        ([Log INFO ''Calculate the Zscore to get # of std deviations current price is from mean.'' [],
          Log EXCEPTION ''Failed to calculate standard deviation: %s'' [AExc StatisticsError]],
         Inl UnboundLocalError))
   \<and> (2 \<le> length past_values \<and> bessel_stdev past_values = 0 \<longrightarrow>
      calculate_zscore past_values current_value =
        ([Log INFO ''Calculate the Zscore to get # of std deviations current price is from mean.'' [],
          Log EXCEPTION ''Failed to calculate standard deviation: %s'' [AExc ZeroDivisionError]],
         Inl UnboundLocalError))
   \<and> (snd (calculate_zscore past_values current_value) = Inr (z, m, s) \<longrightarrow>
        s \<noteq> 0 \<and> z = (current_value - m) / s)"
proof (intro conjI impI)
  assume r: "snd (calculate_zscore past_values current_value) = Inr (z, m, s)"
  have len: "2 \<le> length past_values"
  proof (rule ccontr)
    assume "\<not> 2 \<le> length past_values"
    then have "length past_values < 2" by simp
    from calculate_zscore_short [OF this, of current_value] r show False by simp
  qed
  have nz: "bessel_stdev past_values \<noteq> 0"
  proof
    assume "bessel_stdev past_values = 0"
    from calculate_zscore_zero [OF len this, of current_value] r show False by simp
  qed
  have eq: "snd (calculate_zscore past_values current_value) =
      Inr ((current_value - sample_mean past_values) / bessel_stdev past_values,
           sample_mean past_values, bessel_stdev past_values)"
    by (simp add: calculate_zscore_ok [OF len nz])
  have "z = (current_value - sample_mean past_values) / bessel_stdev past_values"
    and "m = sample_mean past_values" and "s = bessel_stdev past_values"
    using r eq by auto
  with nz show "s \<noteq> 0" and "z = (current_value - m) / s" by simp_all
qed (simp_all add: calculate_zscore_short calculate_zscore_zero)

theorem zscore_never_partial_witness:
  "length [1 :: real] < 2 \<and> snd (calculate_zscore [1] 5) = Inl UnboundLocalError
   \<and> 2 \<le> length [5, 5, 5 :: real] \<and> bessel_stdev [5, 5, 5] = 0
   \<and> snd (calculate_zscore [5, 5, 5] 6) = Inl UnboundLocalError
   \<and> snd (calculate_zscore [1, 2, 3, 4, 5] 3) = Inr (0, 3, sqrt (5 / 2))
   \<and> sqrt (5 / 2) \<noteq> (0::real) \<and> (0::real) = (3 - 3) / sqrt (5 / 2)"
proof -
  have z: "bessel_stdev [5, 5, 5] = 0"
    by (rule bessel_stdev_const [where a = 5]) simp_all
  have ok: "snd (calculate_zscore [1, 2, 3, 4, 5] 3) = Inr (0, 3, sqrt (5 / 2))"
    using calculate_zscore_ok [of "[1, 2, 3, 4, 5]" 3] by (simp add: bessel_12345 mean_12345)
  show ?thesis
    using zscore_never_partial [of "[1]" 5] zscore_never_partial [of "[5, 5, 5]" 6] zscore_never_partial [of "[1, 2, 3, 4, 5]" 3 0 3 "sqrt (5 / 2)"] z ok
    by simp
qed




subsection \<open>The 24 hour volume\<close>

lemma append_volumes_ok:
  "\<forall>row\<in>set rows. row \<noteq> [] \<Longrightarrow> append_volumes rows acc = Inr (acc @ map last rows)"
  by (induction rows arbitrary: acc) (simp_all add: last_conv_nth)

lemma map_last_const:
  "\<forall>row\<in>set rows. row \<noteq> [] \<and> last row = v \<Longrightarrow> map last rows = replicate (length rows) v"
  by (induction rows) simp_all

lemma total_volume_ok:
  assumes "response \<noteq> []" and "\<forall>row\<in>set (take 24 response). row \<noteq> []"
  shows "get_total_volume_past_24_hours response =
           ([], Inr (sum_list (map last (take 24 response))))"
  using assms
  by (simp add: get_total_volume_past_24_hours_def append_volumes_ok stats_fsum_def io_simps)

text \<open>
  C8. For a non-empty sequence of candle rows (each row with a last field),
  \<open>get_total_volume_past_24_hours\<close> returns the sum of the last fields of the first
  \<open>min 24 (length response)\<close> rows; 24 rows whose last field is 1 give 24; the result
  depends on the last fields only; the empty sequence raises ValueError.
\<close>

theorem trailing_volume_sum:
  "(response \<noteq> [] \<and> (\<forall>row\<in>set (take 24 response). row \<noteq> []) \<longrightarrow>
      snd (get_total_volume_past_24_hours response) =
        Inr (sum_list (map last (take (min 24 (length response)) response))))
   \<and> snd (get_total_volume_past_24_hours []) = Inl ValueError
   \<and> (response \<noteq> [] \<and> (\<forall>row\<in>set (take 24 response). row \<noteq> [])
        \<and> (\<forall>row\<in>set (take 24 response'). row \<noteq> [])
        \<and> map last response' = map last response \<longrightarrow>
      get_total_volume_past_24_hours response' = get_total_volume_past_24_hours response)
   \<and> (length response = 24 \<and> (\<forall>row\<in>set response. row \<noteq> [] \<and> last row = 1) \<longrightarrow>
      snd (get_total_volume_past_24_hours response) = Inr 24)"
proof (intro conjI impI)
  assume "response \<noteq> [] \<and> (\<forall>row\<in>set (take 24 response). row \<noteq> [])"
  then show "snd (get_total_volume_past_24_hours response) =
        Inr (sum_list (map last (take (min 24 (length response)) response)))"
    by (simp add: total_volume_ok min_def)
next
  show "snd (get_total_volume_past_24_hours []) = Inl ValueError"
    by (simp add: get_total_volume_past_24_hours_def io_simps)
next
  assume a: "response \<noteq> [] \<and> (\<forall>row\<in>set (take 24 response). row \<noteq> [])
        \<and> (\<forall>row\<in>set (take 24 response'). row \<noteq> [])
        \<and> map last response' = map last response"
  then have "length response' = length response"
    by (metis length_map)
  with a have ne: "response' \<noteq> []" by auto
  have "map last (take 24 response') = map last (take 24 response)"
    using a by (simp add: take_map [symmetric])
  with a ne show "get_total_volume_past_24_hours response' = get_total_volume_past_24_hours response"
    by (simp add: total_volume_ok)
next
  assume a: "length response = 24 \<and> (\<forall>row\<in>set response. row \<noteq> [] \<and> last row = 1)"
  then have ne: "response \<noteq> []" by auto
  from a have m: "map last response = replicate 24 1"
    using map_last_const [of response 1] by simp
  from a ne show "snd (get_total_volume_past_24_hours response) = Inr 24"
    by (simp add: total_volume_ok m sum_list_replicate)
qed

theorem trailing_volume_sum_witness:
  "length (replicate 24 [0, 0, 0, 0, 0, 1 :: real]) = 24
   \<and> snd (get_total_volume_past_24_hours (replicate 24 [0, 0, 0, 0, 0, 1])) = Inr 24
   \<and> snd (get_total_volume_past_24_hours [[1, 2], [3, 4]]) = Inr 6
   \<and> get_total_volume_past_24_hours [[9, 2], [7, 7, 4]] = get_total_volume_past_24_hours [[1, 2], [3, 4]]"
proof -
  have ones: "length (replicate 24 [0, 0, 0, 0, 0, 1 :: real]) = 24
      \<and> (\<forall>row\<in>set (replicate 24 [0, 0, 0, 0, 0, 1 :: real]). row \<noteq> [] \<and> last row = 1)"
    by simp
  have two: "[[1, 2], [3, 4 :: real]] \<noteq> [] \<and> (\<forall>row\<in>set (take 24 [[1, 2], [3, 4 :: real]]). row \<noteq> [])"
    by simp
  have same: "[[1, 2], [3, 4 :: real]] \<noteq> [] \<and> (\<forall>row\<in>set (take 24 [[1, 2], [3, 4 :: real]]). row \<noteq> [])
        \<and> (\<forall>row\<in>set (take 24 [[9, 2], [7, 7, 4 :: real]]). row \<noteq> [])
        \<and> map last [[9, 2], [7, 7, 4 :: real]] = map last [[1, 2], [3, 4]]"
    by simp
  note a = trailing_volume_sum [of "replicate 24 [0, 0, 0, 0, 0, 1]" "[]"]
  note b = trailing_volume_sum [of "[[1, 2], [3, 4]]" "[[9, 2], [7, 7, 4]]"]
  have r1: "snd (get_total_volume_past_24_hours (replicate 24 [0, 0, 0, 0, 0, 1])) = Inr 24"
    using a [THEN conjunct2, THEN conjunct2, THEN conjunct2, THEN mp, OF ones] .
  have r2: "snd (get_total_volume_past_24_hours [[1, 2], [3, 4]]) = Inr 6"
    using b [THEN conjunct1, THEN mp, OF two] by simp
  have r3: "get_total_volume_past_24_hours [[9, 2], [7, 7, 4]] = get_total_volume_past_24_hours [[1, 2], [3, 4]]"
    using b [THEN conjunct2, THEN conjunct2, THEN conjunct1, THEN mp, OF same] .
  show ?thesis
    using r1 r2 r3 by simp
qed

subsection \<open>Price change\<close>

text \<open>
  C1 claims ALERT whenever \<open>abs p \<ge> t\<close>, as the alert message words it ("is greater or
  equal to threshold"). The comparison in \<open>get_price_change\<close> is strict: with close 104,
  open 100 and threshold 4 the change is 4 and the run ends in \<open>send_info\<close>, whose message
  says the change is less than the threshold. The scenario of the specification (close 105,
  open 100, threshold 4) gives the change 5 and ends in \<open>send_alert\<close>.
\<close>

theorem price_change_at_threshold_is_info:
  "get_price_change
     (answering [''close'' \<mapsto> JStr ''104'', ''open'' \<mapsto> JStr ''100''] [] [] ''btcusd'')
     decimal ''btcusd'' 4 =
   ([Log INFO ''Get price change between open and current for %s.'' [AStr ''btcusd''],
     Log INFO ''Get Gemini API tickerv2 endpoint.'' [],
     Log INFO ''Sending request to endpoint: %s.'' [AStr ''https://api.gemini.com/v2/ticker/btcusd''],
     Log INFO ''Get current price from API json response.'' [],
     Log INFO ''Get open price from API json response.'' [],
     Log INFO ''Calculate percentage change between final and inital value.'' [],
     Log INFO ''Sending info.'' [],
     Log INFO ''OK: %s, Message: %s''
       [AStr ''pricechange'',
        AMsg [Lit ''Percentage change '', Val 4,
              Lit '' between current price '', Val 104,
              Lit '' and open price '', Val 100,
              Lit '' is less than threshold of '', Val 4, Lit ''.'']]],
    Inr ())
  \<and> last (fst (get_price_change
     (answering [''close'' \<mapsto> JStr ''105'', ''open'' \<mapsto> JStr ''100'',
        ''changes'' \<mapsto> JArr [JStr ''100'', JStr ''101'', JStr ''99'', JStr ''102'', JStr ''98'']]
        [] [] ''btcusd'')
     decimal ''btcusd'' 4)) =
    Log ERROR ''ALERT TRIGGERED: %s, Message: %s''
       [AStr ''pricechange'',
        AMsg [Lit ''Percentage change '', Val 5,
              Lit '' between current price '', Val 105,
              Lit '' and open price '', Val 100,
              Lit '' is greater or equal to threshold of '', Val 4, Lit ''.'']]"
  by (simp add: run_simps)

subsection \<open>The orchestrator\<close>

lemma try_except_logs:
  fixes m :: "unit io"
  shows "snd (try_except m (\<lambda>ex. log_exception fmt (args ex))) = Inr ()"
  by (cases "snd m") (simp_all add: try_except_def log_exception_def)

lemma snd_get_price_deviation: "snd (get_price_deviation net pf symbol sd) = Inr ()"
  by (simp add: get_price_deviation_def get_tickerv2_url_def log_info_def ret_def and_then_Inr
        try_except_logs)

lemma snd_get_price_change: "snd (get_price_change net pf symbol t) = Inr ()"
  by (simp add: get_price_change_def try_except_logs)

lemma snd_get_volume_deviation: "snd (get_volume_deviation net symbol t) = Inr ()"
  by (simp add: get_volume_deviation_def try_except_logs)

lemma and_then_returns: "snd m = Inr x \<Longrightarrow> and_then m f = (fst m @ fst (f x), snd (f x))"
  by (simp add: and_then_def)

lemma main_all:
  "main net pf currency ''all'' deviation symbol debug =
     (fst (get_price_deviation net pf symbol 1)
        @ fst (get_price_change net pf symbol (deviation * 100))
        @ fst (get_volume_deviation net symbol (deviation * 100)),
      Inr ())"
  by (simp add: main_def Let_def
        and_then_returns [OF snd_get_price_deviation] and_then_returns [OF snd_get_price_change]
        snd_get_volume_deviation)

text \<open>
  C9. With alert type \<open>all\<close>, \<open>main\<close> runs the price deviation, the price change
  and the volume deviation in this order. None of the three lets an exception escape:
  whatever is raised inside one of them is logged by its own handler and the function
  returns, so the trace of the run is the three complete traces one after the other.
\<close>

theorem main_all_runs_every_kind:
  "main net pf currency ''all'' deviation symbol debug =
     (fst (get_price_deviation net pf symbol 1)
        @ fst (get_price_change net pf symbol (deviation * 100))
        @ fst (get_volume_deviation net symbol (deviation * 100)),
      Inr ())
   \<and> snd (get_price_deviation net pf symbol sd) = Inr ()
   \<and> snd (get_price_change net pf symbol t) = Inr ()
   \<and> snd (get_volume_deviation net symbol t) = Inr ()"
  by (simp add: main_all snd_get_price_deviation snd_get_price_change snd_get_volume_deviation)

theorem main_all_runs_every_kind_witness:
  "Log EXCEPTION ''Failed to get price deviation for: %s, message: %s''
       [AStr ''btcusd'', AExc UnboundLocalError]
     \<in> set (fst (main
        (answering [''close'' \<mapsto> JStr ''104'', ''open'' \<mapsto> JStr ''100'',
             ''changes'' \<mapsto> JArr [JStr ''100'']]
           [[0, 0, 0, 0, 0, 100]] [[0, 0, 0, 0, 0, 90]] ''btcusd'')
        decimal None ''all'' 0.04 ''btcusd'' False))
   \<and> last (fst (main
        (answering [''close'' \<mapsto> JStr ''104'', ''open'' \<mapsto> JStr ''100'',
             ''changes'' \<mapsto> JArr [JStr ''100'']]
           [[0, 0, 0, 0, 0, 100]] [[0, 0, 0, 0, 0, 90]] ''btcusd'')
        decimal None ''all'' 0.04 ''btcusd'' False)) =
      Log INFO ''OK: %s, Message: %s''
        [AStr ''voldev'',
         AMsg [Lit ''Percentage change '', Val (- 10),
               Lit '' between current volume '', Val 90,
               Lit '' and past 24hour total volume '', Val 100,
               Lit '' threshold of '', Val 4, Lit ''.'']]
   \<and> snd (main
        (answering [''close'' \<mapsto> JStr ''104'', ''open'' \<mapsto> JStr ''100'',
             ''changes'' \<mapsto> JArr [JStr ''100'']]
           [[0, 0, 0, 0, 0, 100]] [[0, 0, 0, 0, 0, 90]] ''btcusd'')
        decimal None ''all'' 0.04 ''btcusd'' False) = Inr ()"
proof -
  let ?net = "answering [''close'' \<mapsto> JStr ''104'', ''open'' \<mapsto> JStr ''100'',
             ''changes'' \<mapsto> JArr [JStr ''100'']]
           [[0, 0, 0, 0, 0, 100]] [[0, 0, 0, 0, 0, 90]] ''btcusd''"
  have pd: "fst (get_price_deviation ?net decimal ''btcusd'' 1) =
     [Log INFO ''Get Gemini API tickerv2 endpoint.'' [],
      Log INFO ''Get price deviation for %s.'' [AStr ''btcusd''],
      Log INFO ''Sending request to endpoint: %s.'' [AStr ''https://api.gemini.com/v2/ticker/btcusd''],
      Log INFO ''Get current price from API json response.'' [],
      Log INFO ''Calculate the Zscore to get # of std deviations current price is from mean.'' [],
      Log EXCEPTION ''Failed to calculate standard deviation: %s'' [AExc StatisticsError],
      Log EXCEPTION ''Failed to get price deviation for: %s, message: %s''
        [AStr ''btcusd'', AExc UnboundLocalError]]"
    by (simp add: run_simps)
  have vd: "last (fst (get_volume_deviation ?net ''btcusd'' 4)) =
      Log INFO ''OK: %s, Message: %s''
        [AStr ''voldev'',
         AMsg [Lit ''Percentage change '', Val (- 10),
               Lit '' between current volume '', Val 90,
               Lit '' and past 24hour total volume '', Val 100,
               Lit '' threshold of '', Val 4, Lit ''.'']]"
    and ne: "fst (get_volume_deviation ?net ''btcusd'' 4) \<noteq> []"
    by (simp_all add: run_simps)
  note m = main_all_runs_every_kind [of ?net decimal None "0.04" "''btcusd''" False, THEN conjunct1]
  show ?thesis
    unfolding m using pd vd ne by simp
qed

subsection \<open>Price deviation\<close>

lemma sqrt_9: "sqrt 9 = 3"
  using real_sqrt_abs [of 3] by simp

lemma price_deviation_last:
  assumes reply: "ticker_reply net (''https://api.gemini.com/v2/ticker/'' @ symbol) = Response ok (Inr d)"
    and price: "snd (get_current_price pf d) = Inr c"
    and past: "snd (get_hourly_past_24_hours pf d) = Inr ps"
    and zs: "snd (calculate_zscore ps c) = Inr (z, m, sd)"
  shows "last (fst (get_price_deviation net pf symbol s)) =
      (if z > s then
         Log ERROR ''Current price: %s is %s standard deviations above the mean: %s''
           [ANum c, ANum z, ANum m]
       else if z < - s then
         Log ERROR ''Current price: %s is %s standard deviations below the mean: %s''
           [ANum c, ANum z, ANum m]
       else
         Log INFO ''Current price (%s) is within 1 standard deivation (%s) from the sample mean (%s).''
           [ANum c, ANum sd, ANum m])"
proof -
  obtain l1 where p1: "get_current_price pf d = (l1, Inr c)"
    using io_pair [OF price] by blast
  obtain l2 where p2: "get_hourly_past_24_hours pf d = (l2, Inr ps)"
    using io_pair [OF past] by blast
  obtain l3 where p3: "calculate_zscore ps c = (l3, Inr (z, m, sd))"
    using io_pair [OF zs] by blast
  show ?thesis
    using reply
    by (simp add: get_price_deviation_def get_tickerv2_url_def GEMINI_API_BASE_URL_def
          API_VERSION_def send_request_def p1 p2 p3 io_simps)
qed

text \<open>
  C3. When the price deviation analysis reaches a z-score \<open>z\<close>, its last record is
  written by \<open>log.error\<close> (ALERT) exactly when \<open>z > s\<close> or \<open>z < - s\<close>, and by
  \<open>log.info\<close> (INFO) otherwise: the comparisons are strict, a z-score equal to \<open>s\<close> or
  \<open>- s\<close> gives INFO. \<open>main\<close> passes the sigma threshold 1.0 at both call sites,
  whatever \<open>--deviation\<close> is. The witness runs \<open>z = 1\<close> (INFO) and \<open>z = 1.01\<close> (ALERT)
  against the threshold 1.
\<close>

theorem price_deviation_sigma_rule:
  "(ticker_reply net (''https://api.gemini.com/v2/ticker/'' @ symbol) = Response ok (Inr d)
      \<and> snd (get_current_price pf d) = Inr c
      \<and> snd (get_hourly_past_24_hours pf d) = Inr ps
      \<and> snd (calculate_zscore ps c) = Inr (z, m, sd) \<longrightarrow>
    last (fst (get_price_deviation net pf symbol s)) =
      (if z > s then
         Log ERROR ''Current price: %s is %s standard deviations above the mean: %s''
           [ANum c, ANum z, ANum m]
       else if z < - s then
         Log ERROR ''Current price: %s is %s standard deviations below the mean: %s''
           [ANum c, ANum z, ANum m]
       else
         Log INFO ''Current price (%s) is within 1 standard deivation (%s) from the sample mean (%s).''
           [ANum c, ANum sd, ANum m])
    \<and> (record_method (last (fst (get_price_deviation net pf symbol s))) = ERROR
          \<longleftrightarrow> z > s \<or> z < - s)
    \<and> (record_method (last (fst (get_price_deviation net pf symbol s))) = INFO
          \<longleftrightarrow> \<not> (z > s \<or> z < - s)))
   \<and> main net pf currency ''pricedev'' deviation symbol debug = get_price_deviation net pf symbol 1
   \<and> main net pf currency ''all'' deviation symbol debug =
       and_then (get_price_deviation net pf symbol 1) (\<lambda>_.
       and_then (get_price_change net pf symbol (deviation * 100)) (\<lambda>_.
         get_volume_deviation net symbol (deviation * 100)))"
proof (intro conjI impI)
  assume h: "ticker_reply net (''https://api.gemini.com/v2/ticker/'' @ symbol) = Response ok (Inr d)
      \<and> snd (get_current_price pf d) = Inr c
      \<and> snd (get_hourly_past_24_hours pf d) = Inr ps
      \<and> snd (calculate_zscore ps c) = Inr (z, m, sd)"
  note l = price_deviation_last [OF h [THEN conjunct1] h [THEN conjunct2, THEN conjunct1]
      h [THEN conjunct2, THEN conjunct2, THEN conjunct1]
      h [THEN conjunct2, THEN conjunct2, THEN conjunct2], of s]
  then show "last (fst (get_price_deviation net pf symbol s)) =
      (if z > s then
         Log ERROR ''Current price: %s is %s standard deviations above the mean: %s''
           [ANum c, ANum z, ANum m]
       else if z < - s then
         Log ERROR ''Current price: %s is %s standard deviations below the mean: %s''
           [ANum c, ANum z, ANum m]
       else
         Log INFO ''Current price (%s) is within 1 standard deivation (%s) from the sample mean (%s).''
           [ANum c, ANum sd, ANum m])" .
  show "record_method (last (fst (get_price_deviation net pf symbol s))) = ERROR
          \<longleftrightarrow> z > s \<or> z < - s"
    unfolding l by simp
  show "record_method (last (fst (get_price_deviation net pf symbol s))) = INFO
          \<longleftrightarrow> \<not> (z > s \<or> z < - s)"
    unfolding l by simp
next
  show "main net pf currency ''pricedev'' deviation symbol debug = get_price_deviation net pf symbol 1"
    by (simp add: main_def)
next
  show "main net pf currency ''all'' deviation symbol debug =
       and_then (get_price_deviation net pf symbol 1) (\<lambda>_.
       and_then (get_price_change net pf symbol (deviation * 100)) (\<lambda>_.
         get_volume_deviation net symbol (deviation * 100)))"
    by (simp add: main_def Let_def)
qed

lemma z036: "calculate_zscore [0, 3, 6] 6 =
     ([Log INFO ''Calculate the Zscore to get # of std deviations current price is from mean.'' []],
      Inr (1, 3, 3))"
  by (simp add: calculate_zscore_def stats_stdev_def stats_mean_def stats_variance_def py_div_def
        io_simps sqrt_9)

lemma z036b: "calculate_zscore [0, 3, 6] 6.03 =
     ([Log INFO ''Calculate the Zscore to get # of std deviations current price is from mean.'' []],
      Inr (1.01, 3, 3))"
  by (simp add: calculate_zscore_def stats_stdev_def stats_mean_def stats_variance_def py_div_def
        io_simps sqrt_9)

theorem price_deviation_sigma_rule_witness:
  "snd (calculate_zscore [0, 3, 6] 6) = Inr (1, 3, 3)
   \<and> record_method (last (fst (get_price_deviation
        (answering [''close'' \<mapsto> JStr ''6'', ''changes'' \<mapsto> JArr [JStr ''0'', JStr ''3'', JStr ''6'']]
           [] [] ''btcusd'')
        decimal ''btcusd'' 1))) = INFO
   \<and> snd (calculate_zscore [0, 3, 6] 6.03) = Inr (1.01, 3, 3)
   \<and> record_method (last (fst (get_price_deviation
        (answering [''close'' \<mapsto> JStr ''6.03'', ''changes'' \<mapsto> JArr [JStr ''0'', JStr ''3'', JStr ''6'']]
           [] [] ''btcusd'')
        decimal ''btcusd'' 1))) = ERROR"
proof -
  let ?d1 = "[''close'' \<mapsto> JStr ''6'', ''changes'' \<mapsto> JArr [JStr ''0'', JStr ''3'', JStr ''6'']]"
  let ?d2 = "[''close'' \<mapsto> JStr ''6.03'', ''changes'' \<mapsto> JArr [JStr ''0'', JStr ''3'', JStr ''6'']]"
  have h1: "ticker_reply (answering ?d1 [] [] ''btcusd'') (''https://api.gemini.com/v2/ticker/'' @ ''btcusd'')
        = Response True (Inr ?d1)
      \<and> snd (get_current_price decimal ?d1) = Inr 6
      \<and> snd (get_hourly_past_24_hours decimal ?d1) = Inr [0, 3, 6]
      \<and> snd (calculate_zscore [0, 3, 6] 6) = Inr (1, 3, 3)"
    using z036
    by (simp add: answering_def get_current_price_def get_hourly_past_24_hours_def dict_get_def
        decimal_def unsigned_decimal_def digit_of_def io_simps)
  have h2: "ticker_reply (answering ?d2 [] [] ''btcusd'') (''https://api.gemini.com/v2/ticker/'' @ ''btcusd'')
        = Response True (Inr ?d2)
      \<and> snd (get_current_price decimal ?d2) = Inr 6.03
      \<and> snd (get_hourly_past_24_hours decimal ?d2) = Inr [0, 3, 6]
      \<and> snd (calculate_zscore [0, 3, 6] 6.03) = Inr (1.01, 3, 3)"
    using z036b
    by (simp add: answering_def get_current_price_def get_hourly_past_24_hours_def dict_get_def
        decimal_def unsigned_decimal_def digit_of_def io_simps)
  note a = price_deviation_sigma_rule [of "answering ?d1 [] [] ''btcusd''" "''btcusd''" True ?d1 decimal 6 "[0, 3, 6]" 1 3 3 1,
      THEN conjunct1, THEN mp, OF h1, THEN conjunct2, THEN conjunct2]
  note b = price_deviation_sigma_rule [of "answering ?d2 [] [] ''btcusd''" "''btcusd''" True ?d2 decimal "6.03" "[0, 3, 6]" "1.01" 3 3 1,
      THEN conjunct1, THEN mp, OF h2, THEN conjunct2, THEN conjunct1]
  from a have r1: "record_method (last (fst (get_price_deviation (answering ?d1 [] [] ''btcusd'')
        decimal ''btcusd'' 1))) = INFO" by simp
  from b have r2: "record_method (last (fst (get_price_deviation (answering ?d2 [] [] ''btcusd'')
        decimal ''btcusd'' 1))) = ERROR" by simp
  show ?thesis
    using r1 r2 z036 z036b by simp
qed

text \<open>No part of the price deviation analysis writes a record of the sink.\<close>

lemma quiet_and_then: "quiet m \<Longrightarrow> (\<And>x. quiet (f x)) \<Longrightarrow> quiet (and_then m f)"
  by (cases "snd m") (simp_all add: quiet_def and_then_def)

lemma quiet_try_except: "quiet m \<Longrightarrow> (\<And>e. quiet (h e)) \<Longrightarrow> quiet (try_except m h)"
  by (cases "snd m") (simp_all add: quiet_def try_except_def)

lemma quiet_basic [simp]: "quiet (ret x)" "quiet (raise e)" "quiet (lift r)"
  by (simp_all add: quiet_def ret_def raise_def lift_def)

lemma quiet_log [simp]:
  "quiet (log_info fmt args) \<longleftrightarrow> \<not> sink_record (Log INFO fmt args)"
  "quiet (log_error fmt args) \<longleftrightarrow> \<not> sink_record (Log ERROR fmt args)"
  "quiet (log_exception fmt args) \<longleftrightarrow> \<not> sink_record (Log EXCEPTION fmt args)"
  by (simp_all add: quiet_def log_info_def log_error_def log_exception_def)

lemma quiet_send_request: "quiet (send_request net url)"
  unfolding send_request_def
  by (intro quiet_and_then quiet_try_except) (simp_all split: reply.split)

lemma quiet_get_tickerv2_url: "quiet (get_tickerv2_url symbol)"
  unfolding get_tickerv2_url_def
  by (intro quiet_and_then) simp_all

lemma quiet_get_current_price: "quiet (get_current_price pf d)"
  unfolding get_current_price_def
  by (intro quiet_and_then) (auto intro!: quiet_and_then)

lemma quiet_get_hourly: "quiet (get_hourly_past_24_hours pf d)"
  unfolding get_hourly_past_24_hours_def
  by (intro quiet_and_then) simp_all

lemma quiet_calculate_zscore: "quiet (calculate_zscore ps c)"
  unfolding calculate_zscore_def
  by (intro quiet_and_then quiet_try_except) (simp_all split: option.split)

lemma quiet_get_price_deviation: "quiet (get_price_deviation net pf symbol sd)"
  unfolding get_price_deviation_def
  by (intro quiet_and_then quiet_try_except quiet_get_tickerv2_url quiet_send_request
        quiet_get_current_price quiet_get_hourly quiet_calculate_zscore)
     (simp_all split: prod.split)

lemma sqrt_25: "sqrt 25 = 5"
  using real_sqrt_abs [of 5] by simp

lemma sqrt_5_2_less: "sqrt (5 / 2) < 5"
proof -
  have "sqrt (5 / 2 :: real) < sqrt 25"
    unfolding real_sqrt_less_iff by simp
  then show ?thesis
    unfolding sqrt_25 .
qed

lemma z_spec_not_below: "\<not> 5 / sqrt (5 / 2) < - 1"
proof -
  have "0 < 5 / sqrt (5 / 2 :: real)" by simp
  then show ?thesis by linarith
qed

text \<open>
  C7 claims that the price deviation analysis hands its classification to \<open>send_alert\<close>
  or \<open>send_info\<close>, as the price change and the volume deviation do. It never does: on
  every input its trace holds no record of either function. On the ticker of the
  specification's scenario (close 105, changes 100, 101, 99, 102, 98) the z-score is
  \<open>5 / sqrt (5 / 2)\<close>, above 1, and the run ends with a bare \<open>log.error\<close>.
\<close>

theorem price_deviation_bypasses_sink:
  "\<not> list_ex sink_record (fst (get_price_deviation net pf symbol stdev))
   \<and> fst (get_price_deviation
       (answering [''close'' \<mapsto> JStr ''105'', ''open'' \<mapsto> JStr ''100'',
          ''changes'' \<mapsto> JArr [JStr ''100'', JStr ''101'', JStr ''99'', JStr ''102'', JStr ''98'']]
          [] [] ''btcusd'')
       decimal ''btcusd'' 1) =
     [Log INFO ''Get Gemini API tickerv2 endpoint.'' [],
      Log INFO ''Get price deviation for %s.'' [AStr ''btcusd''],
      Log INFO ''Sending request to endpoint: %s.'' [AStr ''https://api.gemini.com/v2/ticker/btcusd''],
      Log INFO ''Get current price from API json response.'' [],
      Log INFO ''Calculate the Zscore to get # of std deviations current price is from mean.'' [],
      Log ERROR ''Current price: %s is %s standard deviations above the mean: %s''
        [ANum 105, ANum (5 / sqrt (5 / 2)), ANum 100]]"
proof
  show "\<not> list_ex sink_record (fst (get_price_deviation net pf symbol stdev))"
    using quiet_get_price_deviation [of net pf symbol stdev] by (simp add: quiet_def)
next
  show "fst (get_price_deviation
       (answering [''close'' \<mapsto> JStr ''105'', ''open'' \<mapsto> JStr ''100'',
          ''changes'' \<mapsto> JArr [JStr ''100'', JStr ''101'', JStr ''99'', JStr ''102'', JStr ''98'']]
          [] [] ''btcusd'')
       decimal ''btcusd'' 1) =
     [Log INFO ''Get Gemini API tickerv2 endpoint.'' [],
      Log INFO ''Get price deviation for %s.'' [AStr ''btcusd''],
      Log INFO ''Sending request to endpoint: %s.'' [AStr ''https://api.gemini.com/v2/ticker/btcusd''],
      Log INFO ''Get current price from API json response.'' [],
      Log INFO ''Calculate the Zscore to get # of std deviations current price is from mean.'' [],
      Log ERROR ''Current price: %s is %s standard deviations above the mean: %s''
        [ANum 105, ANum (5 / sqrt (5 / 2)), ANum 100]]"
    by (simp add: run_simps sqrt_5_2_less z_spec_not_below)
qed

subsection \<open>Volume deviation\<close>

lemma volume_deviation_last:
  assumes hourly: "candles_reply net (get_candles_url symbol ''1hr'') = Response ok1 (Inr hourly)"
    and tot: "snd (get_total_volume_past_24_hours hourly) = Inr total24"
    and minutes: "candles_reply net (get_candles_url symbol ''1m'') = Response ok2 (Inr minutes)"
    and current: "snd (get_current_volume_1m_interval minutes) = Inr current"
    and change: "snd (calculate_percentage_change current total24) = Inr p"
  shows "last (fst (get_volume_deviation net symbol t)) =
      (if p > t then
         Log ERROR ''ALERT TRIGGERED: %s, Message: %s''
           [AStr ''voldev'',
            AMsg [Lit ''Percentage change '', Val p,
                  Lit '' between current volume '', Val current,
                  Lit '' and past 24hour total volume '', Val total24,
                  Lit '' threshold of '', Val t, Lit ''.'']]
       else
         Log INFO ''OK: %s, Message: %s''
           [AStr ''voldev'',
            AMsg [Lit ''Percentage change '', Val p,
                  Lit '' between current volume '', Val current,
                  Lit '' and past 24hour total volume '', Val total24,
                  Lit '' threshold of '', Val t, Lit ''.'']])"
proof -
  obtain l1 where p1: "get_total_volume_past_24_hours hourly = (l1, Inr total24)"
    using io_pair [OF tot] by blast
  obtain l2 where p2: "get_current_volume_1m_interval minutes = (l2, Inr current)"
    using io_pair [OF current] by blast
  obtain l3 where p3: "calculate_percentage_change current total24 = (l3, Inr p)"
    using io_pair [OF change] by blast
  show ?thesis
    using hourly minutes
    by (simp add: get_volume_deviation_def send_request_def send_alert_def send_info_def
          p1 p2 p3 io_simps)
qed

text \<open>
  C6, as claimed: ALERT exactly when \<open>p > t\<close>, so that every negative change is INFO.
  The second part fails for a negative threshold: with a 24 hour volume of 100, a current
  volume of 90 and the threshold -50 (\<open>--deviation -0.5\<close>) the change is -10 and the run
  ends in \<open>send_alert\<close>.
\<close>

theorem volume_drop_alert_counterexample:
  "snd (calculate_percentage_change 90 100) = Inr (- 10)
   \<and> last (fst (get_volume_deviation
        (answering Map.empty [[0, 0, 0, 0, 0, 100]] [[0, 0, 0, 0, 0, 90]] ''btcusd'')
        ''btcusd'' (- 50))) =
      Log ERROR ''ALERT TRIGGERED: %s, Message: %s''
        [AStr ''voldev'',
         AMsg [Lit ''Percentage change '', Val (- 10),
               Lit '' between current volume '', Val 90,
               Lit '' and past 24hour total volume '', Val 100,
               Lit '' threshold of '', Val (- 50), Lit ''.'']]"
  by (simp add: run_simps)

text \<open>
  C6, amended. When the volume deviation analysis reaches a percentage change \<open>p\<close>, it
  ends in \<open>send_alert\<close> exactly when \<open>p > t\<close> (strict, no absolute value) and in
  \<open>send_info\<close> otherwise; so for a threshold \<open>t \<ge> 0\<close> every negative change, however
  large in magnitude, is INFO.
\<close>

theorem volume_deviation_directional:
  "(candles_reply net (get_candles_url symbol ''1hr'') = Response ok1 (Inr hourly)
      \<and> snd (get_total_volume_past_24_hours hourly) = Inr total24
      \<and> candles_reply net (get_candles_url symbol ''1m'') = Response ok2 (Inr minutes)
      \<and> snd (get_current_volume_1m_interval minutes) = Inr current
      \<and> snd (calculate_percentage_change current total24) = Inr p \<longrightarrow>
    last (fst (get_volume_deviation net symbol t)) =
      (if p > t then
         Log ERROR ''ALERT TRIGGERED: %s, Message: %s''
           [AStr ''voldev'',
            AMsg [Lit ''Percentage change '', Val p,
                  Lit '' between current volume '', Val current,
                  Lit '' and past 24hour total volume '', Val total24,
                  Lit '' threshold of '', Val t, Lit ''.'']]
       else
         Log INFO ''OK: %s, Message: %s''
           [AStr ''voldev'',
            AMsg [Lit ''Percentage change '', Val p,
                  Lit '' between current volume '', Val current,
                  Lit '' and past 24hour total volume '', Val total24,
                  Lit '' threshold of '', Val t, Lit ''.'']])
    \<and> (record_method (last (fst (get_volume_deviation net symbol t))) = ERROR \<longleftrightarrow> p > t)
    \<and> (record_method (last (fst (get_volume_deviation net symbol t))) = INFO \<longleftrightarrow> \<not> p > t)
    \<and> (0 \<le> t \<and> p < 0 \<longrightarrow>
         last (fst (get_volume_deviation net symbol t)) =
         Log INFO ''OK: %s, Message: %s''
           [AStr ''voldev'',
            AMsg [Lit ''Percentage change '', Val p,
                  Lit '' between current volume '', Val current,
                  Lit '' and past 24hour total volume '', Val total24,
                  Lit '' threshold of '', Val t, Lit ''.'']]))"
proof (intro conjI impI)
  assume h: "candles_reply net (get_candles_url symbol ''1hr'') = Response ok1 (Inr hourly)
      \<and> snd (get_total_volume_past_24_hours hourly) = Inr total24
      \<and> candles_reply net (get_candles_url symbol ''1m'') = Response ok2 (Inr minutes)
      \<and> snd (get_current_volume_1m_interval minutes) = Inr current
      \<and> snd (calculate_percentage_change current total24) = Inr p"
  note l = volume_deviation_last [OF h [THEN conjunct1] h [THEN conjunct2, THEN conjunct1]
      h [THEN conjunct2, THEN conjunct2, THEN conjunct1]
      h [THEN conjunct2, THEN conjunct2, THEN conjunct2, THEN conjunct1]
      h [THEN conjunct2, THEN conjunct2, THEN conjunct2, THEN conjunct2], of t]
  then show "last (fst (get_volume_deviation net symbol t)) =
      (if p > t then
         Log ERROR ''ALERT TRIGGERED: %s, Message: %s''
           [AStr ''voldev'',
            AMsg [Lit ''Percentage change '', Val p,
                  Lit '' between current volume '', Val current,
                  Lit '' and past 24hour total volume '', Val total24,
                  Lit '' threshold of '', Val t, Lit ''.'']]
       else
         Log INFO ''OK: %s, Message: %s''
           [AStr ''voldev'',
            AMsg [Lit ''Percentage change '', Val p,
                  Lit '' between current volume '', Val current,
                  Lit '' and past 24hour total volume '', Val total24,
                  Lit '' threshold of '', Val t, Lit ''.'']])" .
  show "record_method (last (fst (get_volume_deviation net symbol t))) = ERROR \<longleftrightarrow> p > t"
    unfolding l by simp
  show "record_method (last (fst (get_volume_deviation net symbol t))) = INFO \<longleftrightarrow> \<not> p > t"
    unfolding l by simp
  assume "0 \<le> t \<and> p < 0"
  then show "last (fst (get_volume_deviation net symbol t)) =
         Log INFO ''OK: %s, Message: %s''
           [AStr ''voldev'',
            AMsg [Lit ''Percentage change '', Val p,
                  Lit '' between current volume '', Val current,
                  Lit '' and past 24hour total volume '', Val total24,
                  Lit '' threshold of '', Val t, Lit ''.'']]"
    unfolding l by simp
qed

lemma total_100: "get_total_volume_past_24_hours [[0, 0, 0, 0, 0, 100]] = ([], Inr 100)"
  by (simp add: get_total_volume_past_24_hours_def stats_fsum_def io_simps)

lemma current_90: "get_current_volume_1m_interval [[0, 0, 0, 0, 0, 90]] = ([], Inr 90)"
  by (simp add: get_current_volume_1m_interval_def io_simps)

lemma current_150: "get_current_volume_1m_interval [[0, 0, 0, 0, 0, 150]] = ([], Inr 150)"
  by (simp add: get_current_volume_1m_interval_def io_simps)

theorem volume_deviation_directional_witness:
  "snd (calculate_percentage_change 90 100) = Inr (- 10)
   \<and> record_method (last (fst (get_volume_deviation
        (answering Map.empty [[0, 0, 0, 0, 0, 100]] [[0, 0, 0, 0, 0, 90]] ''btcusd'')
        ''btcusd'' 4))) = INFO
   \<and> snd (calculate_percentage_change 150 100) = Inr 50
   \<and> record_method (last (fst (get_volume_deviation
        (answering Map.empty [[0, 0, 0, 0, 0, 100]] [[0, 0, 0, 0, 0, 150]] ''btcusd'')
        ''btcusd'' 4))) = ERROR"
proof -
  let ?drop = "answering Map.empty [[0, 0, 0, 0, 0, 100]] [[0, 0, 0, 0, 0, 90]] ''btcusd''"
  let ?spike = "answering Map.empty [[0, 0, 0, 0, 0, 100]] [[0, 0, 0, 0, 0, 150]] ''btcusd''"
  have p1: "snd (calculate_percentage_change 90 100) = Inr (- 10)"
    and p2: "snd (calculate_percentage_change 150 100) = Inr 50"
    by (simp_all add: calculate_percentage_change_def io_simps)
  have h1: "candles_reply ?drop (get_candles_url ''btcusd'' ''1hr'') = Response True (Inr [[0, 0, 0, 0, 0, 100]])
      \<and> snd (get_total_volume_past_24_hours [[0, 0, 0, 0, 0, 100]]) = Inr 100
      \<and> candles_reply ?drop (get_candles_url ''btcusd'' ''1m'') = Response True (Inr [[0, 0, 0, 0, 0, 90]])
      \<and> snd (get_current_volume_1m_interval [[0, 0, 0, 0, 0, 90]]) = Inr 90
      \<and> snd (calculate_percentage_change 90 100) = Inr (- 10)"
    using p1 by (simp add: answering_def get_candles_url_def total_100 current_90)
  have h2: "candles_reply ?spike (get_candles_url ''btcusd'' ''1hr'') = Response True (Inr [[0, 0, 0, 0, 0, 100]])
      \<and> snd (get_total_volume_past_24_hours [[0, 0, 0, 0, 0, 100]]) = Inr 100
      \<and> candles_reply ?spike (get_candles_url ''btcusd'' ''1m'') = Response True (Inr [[0, 0, 0, 0, 0, 150]])
      \<and> snd (get_current_volume_1m_interval [[0, 0, 0, 0, 0, 150]]) = Inr 150
      \<and> snd (calculate_percentage_change 150 100) = Inr 50"
    using p2 by (simp add: answering_def get_candles_url_def total_100 current_150)
  note a = volume_deviation_directional [of ?drop "''btcusd''" True "[[0, 0, 0, 0, 0, 100]]" 100 True "[[0, 0, 0, 0, 0, 90]]" 90 "- 10" 4,
      THEN mp, OF h1, THEN conjunct2, THEN conjunct2, THEN conjunct1]
  note b = volume_deviation_directional [of ?spike "''btcusd''" True "[[0, 0, 0, 0, 0, 100]]" 100 True "[[0, 0, 0, 0, 0, 150]]" 150 50 4,
      THEN mp, OF h2, THEN conjunct2, THEN conjunct1]
  from a have r1: "record_method (last (fst (get_volume_deviation ?drop ''btcusd'' 4))) = INFO" by simp
  from b have r2: "record_method (last (fst (get_volume_deviation ?spike ''btcusd'' 4))) = ERROR" by simp
  show ?thesis
    using p1 p2 r1 r2 by simp
qed

end
